theory Spec2Isabelle
  imports Complex_Main
begin

section \<open>Values of the program\<close>

text \<open>
  The module \<^verbatim>\<open>keras_contrib/applications/densenet.py\<close> assembles Keras layer
  objects into a graph. The embedding keeps the module's own logic (argument checks,
  derived integers, the order in which layers are wired) and represents what the
  framework returns symbolically: a tensor is the term of the layer calls that produced it.

  Python exceptions are values of \<open>error\<close>; a function that can raise returns
  \<open>error + 'a\<close> with \<open>Inl\<close> for the exception. \<open>ValueError\<close> and
  \<open>AssertionError\<close> carry the literal message of the source.
\<close>

datatype error =
    ValueError string
  | AssertionError string
  | NameError string
  | IndexError
  | TypeError

definition bind :: "error + 'a \<Rightarrow> ('a \<Rightarrow> error + 'b) \<Rightarrow> error + 'b" where
  "bind m f = (case m of Inl e \<Rightarrow> Inl e | Inr v \<Rightarrow> f v)"

definition assert :: "bool \<Rightarrow> string \<Rightarrow> error + unit" where
  "assert c msg = (if c then Inr () else Inl (AssertionError msg))"

text \<open>
  A Python float is modelled by the rational number it denotes. Comparisons are then
  exact; the three float operations of the module (\<open>1.0 - reduction\<close>,
  \<open>nb_filter * compression\<close> and \<open>(depth - 4) / 3\<close>) are taken without rounding, and
  NaN and the infinities are not values of the model. \<open>int(x)\<close> truncates towards zero.
\<close>

type_synonym pyfloat = rat

definition py_int :: "pyfloat \<Rightarrow> int" where
  "py_int q = (if 0 \<le> q then \<lfloor>q\<rfloor> else \<lceil>q\<rceil>)"

text \<open>
  \<open>nb_layers_per_block\<close> is an integer, a list or a tuple; a dimension of a shape is
  an integer or \<open>None\<close>; a dilation rate is an integer or a pair.
\<close>

datatype layers_arg = LInt int | LList "int list" | LTuple "int list"

type_synonym dim = "int option"
type_synonym shape = "dim \<times> dim \<times> dim"

datatype dilation = DilInt int | DilPair int int

text \<open>
  The list \<open>out_shape\<close> of \<open>__create_fcn_dense_net\<close>: the batch size (possibly
  \<open>None\<close>) followed by three integers.
\<close>

type_synonym out_shape = "int option \<times> int \<times> int \<times> int"

subsection \<open>The framework, symbolically\<close>

text \<open>
  One constructor per layer class the module instantiates, with the arguments that vary
  between the call sites. Keyword arguments that take a single constant wherever they are
  given (\<open>padding='same'\<close>, \<open>use_bias=False\<close>, \<open>kernel_initializer='he_uniform'\<close>,
  \<open>mode=0\<close>, the pool size and the strides) are left out. \<open>Conv2D\<close>: filters,
  kernel size, the weight of the \<open>l2\<close> kernel regulariser, dilation rate, activation, name. \<open>BatchNormalization\<close>:
  axis and the weight of the \<open>l2\<close> regularisers. \<open>Conv2DTranspose\<close>: filters and the
  output shape. \<open>Merge_concat\<close> is \<open>merge(..., mode='concat', concat_axis=...)\<close>.
  Layer constructors are total: an exception raised inside the framework is outside the
  model.
\<close>

datatype layer =
    BatchNormalization int pyfloat
  | Activation string
  | Conv2D int "int \<times> int" pyfloat "dilation option" "string option" "string option"
  | Dropout pyfloat
  | AveragePooling2D
  | GlobalAveragePooling2D
  | Dense int string pyfloat
  | Reshape "int list"
  | UpSampling2D
  | SubPixelUpscaling int
  | Conv2DTranspose int "out_shape option"
  | Merge_concat int

text \<open>
  The argument \<open>input_tensor\<close>: a backend tensor or a Keras tensor
  (\<open>K.is_keras_tensor\<close> tells them apart).
\<close>

datatype given_tensor = BackendTensor nat | KerasTensor nat

fun is_keras_tensor :: "given_tensor \<Rightarrow> bool" where
  "is_keras_tensor (BackendTensor _) = False"
| "is_keras_tensor (KerasTensor _) = True"

text \<open>
  A tensor is an input placeholder (\<open>Input(shape=...)\<close>), a placeholder wrapped around a
  given tensor (\<open>Input(tensor=..., shape=...)\<close>), a tensor handed in by the caller and
  used as it is, or a layer applied to tensors.
\<close>

datatype tensor =
    Input shape
  | InputOf given_tensor shape
  | Given given_tensor
  | Apply layer "tensor list"

datatype model_inputs = Inputs tensor | SourceInputs given_tensor

datatype model = Model model_inputs tensor string

text \<open>
  What the module reads from the framework at run time: \<open>K.image_data_format()\<close>,
  \<open>K.backend()\<close>, and the function \<open>_obtain_input_shape\<close> of
  \<open>keras.applications.imagenet_utils\<close> (arguments: input shape, default size, minimum
  size, data format, include_top), which is not part of this repository and is a
  parameter of the model.
\<close>

record keras =
  image_data_format :: string
  backend :: string
  obtain_input_shape :: "shape option \<Rightarrow> int \<Rightarrow> int \<Rightarrow> string \<Rightarrow> bool \<Rightarrow> error + shape"

definition concat_axis_of :: "keras \<Rightarrow> int" where
  "concat_axis_of K = (if image_data_format K = ''channels_first'' then 1 else -1)"

text \<open>\<^verbatim>\<open>if dropout_rate: x = Dropout(dropout_rate)(x)\<close>: \<open>None\<close> and \<open>0.0\<close> are falsy.\<close>

fun dropout :: "pyfloat option \<Rightarrow> tensor \<Rightarrow> tensor" where
  "dropout None x = x"
| "dropout (Some r) x = (if r \<noteq> 0 then Apply (Dropout r) [x] else x)"

section \<open>The building blocks\<close>

subsection \<open>\<open>__conv_block\<close>\<close>

definition conv_block ::
  "keras \<Rightarrow> tensor \<Rightarrow> int \<Rightarrow> bool \<Rightarrow> pyfloat option \<Rightarrow> pyfloat \<Rightarrow> tensor" where
  "conv_block K ip nb_filter bottleneck dropout_rate weight_decay =
    (let concat_axis = concat_axis_of K;
         x = Apply (BatchNormalization concat_axis weight_decay) [ip];
         x = Apply (Activation ''relu'') [x];
         x = (if bottleneck then
                (let inter_channel = nb_filter * 4;
                     x = Apply (Conv2D inter_channel (1, 1) weight_decay None None None) [x];
                     x = dropout dropout_rate x;
                     x = Apply (BatchNormalization concat_axis weight_decay) [x]
                 in Apply (Activation ''relu'') [x])
              else x);
         x = Apply (Conv2D nb_filter (3, 3) weight_decay None None None) [x]
     in dropout dropout_rate x)"

subsection \<open>\<open>__transition_block\<close>\<close>

text \<open>
  The branch for \<open>pooling == "max"\<close> evaluates the name \<open>MaxPooling2D\<close>. The module
  imports \<open>AveragePooling2D\<close> and \<open>GlobalAveragePooling2D\<close> from
  \<open>keras.layers.pooling\<close> and never binds \<open>MaxPooling2D\<close>, so that branch raises
  \<open>NameError\<close>. It is reached after the convolution and the dropout have been built.
\<close>

definition transition_block ::
  "keras \<Rightarrow> tensor \<Rightarrow> int \<Rightarrow> pyfloat \<Rightarrow> pyfloat option \<Rightarrow> pyfloat \<Rightarrow> dilation \<Rightarrow>
   string option \<Rightarrow> int \<times> int \<Rightarrow> error + tensor" where
  "transition_block K ip nb_filter compression dropout_rate weight_decay dilation_rate
     pooling kernel_size =
    (let concat_axis = concat_axis_of K;
         x = Apply (BatchNormalization concat_axis weight_decay) [ip];
         x = Apply (Activation ''relu'') [x];
         x = Apply (Conv2D (py_int (of_int nb_filter * compression)) kernel_size weight_decay
                      (Some dilation_rate) None None) [x];
         x = dropout dropout_rate x
     in if pooling = Some ''avg'' then Inr (Apply AveragePooling2D [x])
        else if pooling = Some ''max'' then Inl (NameError ''MaxPooling2D'')
        else Inr x)"

subsection \<open>\<open>__dense_block\<close>\<close>

text \<open>
  The body of \<^verbatim>\<open>for i in range(nb_layers)\<close>, run \<open>n\<close> times on the loop state
  \<open>(x, x_list, nb_filter)\<close>.
\<close>

fun dense_block_loop ::
  "keras \<Rightarrow> nat \<Rightarrow> int \<Rightarrow> bool \<Rightarrow> pyfloat option \<Rightarrow> pyfloat \<Rightarrow> bool \<Rightarrow>
   tensor \<times> tensor list \<times> int \<Rightarrow> tensor \<times> tensor list \<times> int" where
  "dense_block_loop K 0 growth_rate bottleneck dropout_rate weight_decay grow_nb_filters st = st"
| "dense_block_loop K (Suc n) growth_rate bottleneck dropout_rate weight_decay grow_nb_filters
     (x, x_list, nb_filter) =
    (let x = conv_block K x growth_rate bottleneck dropout_rate weight_decay;
         x_list = x_list @ [x];
         x = Apply (Merge_concat (concat_axis_of K)) x_list;
         nb_filter = (if grow_nb_filters then nb_filter + growth_rate else nb_filter)
     in dense_block_loop K n growth_rate bottleneck dropout_rate weight_decay grow_nb_filters
          (x, x_list, nb_filter))"

text \<open>
  \<open>range(nb_layers)\<close> is empty for \<open>nb_layers \<le> 0\<close>, hence \<open>nat nb_layers\<close> iterations.
  The result is \<open>(x, nb_filter)\<close>, followed by \<open>x_list\<close> when \<open>return_concat_list\<close>
  is set: the third component is \<open>None\<close> for the two-element tuple.
\<close>

definition dense_block ::
  "keras \<Rightarrow> tensor \<Rightarrow> int \<Rightarrow> int \<Rightarrow> int \<Rightarrow> bool \<Rightarrow> pyfloat option \<Rightarrow> pyfloat \<Rightarrow> bool \<Rightarrow> bool \<Rightarrow>
   tensor \<times> int \<times> tensor list option" where
  "dense_block K x nb_layers nb_filter growth_rate bottleneck dropout_rate weight_decay
     grow_nb_filters return_concat_list =
    (case dense_block_loop K (nat nb_layers) growth_rate bottleneck dropout_rate weight_decay
            grow_nb_filters (x, [x], nb_filter) of
       (x', x_list, nb_filter') \<Rightarrow>
         (x', nb_filter', if return_concat_list then Some x_list else None))"

subsection \<open>\<open>__transition_up_block\<close>\<close>

text \<open>
  Any \<open>type\<close> other than \<open>'upsampling'\<close> and \<open>'subpixel'\<close> takes the transposed
  convolution, which receives \<open>output_shape\<close>.
\<close>

definition transition_up_block ::
  "tensor \<Rightarrow> int \<Rightarrow> string \<Rightarrow> out_shape option \<Rightarrow> pyfloat \<Rightarrow> tensor" where
  "transition_up_block ip nb_filters type output_shape weight_decay =
    (if type = ''upsampling'' then Apply UpSampling2D [ip]
     else if type = ''subpixel'' then
       (let x = Apply (Conv2D nb_filters (3, 3) weight_decay None (Some ''relu'') None) [ip];
            x = Apply (SubPixelUpscaling 2) [x]
        in Apply (Conv2D nb_filters (3, 3) weight_decay None (Some ''relu'') None) [x])
     else Apply (Conv2DTranspose nb_filters output_shape) [ip])"

section \<open>The classification network\<close>

text \<open>
  The subscription \<open>xs[i]\<close> of a Python list of length \<open>n\<close>: \<open>IndexError\<close>
  unless \<open>-n \<le> i < n\<close>, and \<open>xs[i]\<close> is \<open>xs[n + i]\<close> for \<open>i\<close> below zero.
\<close>

definition getitem :: "'a list \<Rightarrow> int \<Rightarrow> error + 'a" where
  "getitem xs i =
    (if i < - int (length xs) \<or> int (length xs) \<le> i then Inl IndexError
     else if i < 0 then Inr (xs ! nat (int (length xs) + i))
     else Inr (xs ! nat i))"

text \<open>
  Lines 573 to 590 of \<open>__create_dense_net\<close>: the number of layers of each dense block
  but the last, and of the last. With \<open>depth = None\<close> the expression \<open>depth - 4\<close>
  raises \<open>TypeError\<close> (in \<open>__create_dense_net\<close> the assertion on \<open>depth\<close> comes first).
\<close>

definition dense_net_layers ::
  "int option \<Rightarrow> int \<Rightarrow> layers_arg \<Rightarrow> bool \<Rightarrow> error + (int list \<times> int)" where
  "dense_net_layers depth nb_dense_block nb_layers_per_block bottleneck =
    (let from_list = (\<lambda>nb_layers.
           bind (assert (int (length nb_layers) = nb_dense_block + 1)
                   ''If list, nb_layer is used as provided. Note that list size must be (nb_dense_block + 1)'')
             (\<lambda>_. bind (getitem nb_layers (- 1))
               (\<lambda>final_nb_layer. Inr (butlast nb_layers, final_nb_layer))))
     in bind
          (case nb_layers_per_block of
             LList l \<Rightarrow> from_list l
           | LTuple l \<Rightarrow> from_list l
           | LInt n \<Rightarrow>
               if n = - 1 then
                 (case depth of
                    None \<Rightarrow> Inl TypeError
                  | Some d \<Rightarrow>
                      (let count = py_int (of_int (d - 4) / 3)
                       in Inr (replicate (nat nb_dense_block) count, count)))
               else Inr (replicate (nat nb_dense_block) n, n))
          (\<lambda>(nb_layers, final_nb_layer).
             Inr (if bottleneck then map (\<lambda>layer. layer div 2) nb_layers else nb_layers,
                  final_nb_layer)))"

text \<open>
  The loop of lines 605 to 617 over the block indices, on the state \<open>(x, nb_filter)\<close>.
\<close>

fun dense_net_blocks ::
  "keras \<Rightarrow> int list \<Rightarrow> int \<Rightarrow> bool \<Rightarrow> pyfloat option \<Rightarrow> pyfloat \<Rightarrow> pyfloat \<Rightarrow> dilation \<Rightarrow>
   string option \<Rightarrow> int \<times> int \<Rightarrow> nat list \<Rightarrow> tensor \<times> int \<Rightarrow> error + tensor \<times> int" where
  "dense_net_blocks K nb_layers growth_rate bottleneck dropout_rate weight_decay compression
     transition_dilation_rate transition_pooling transition_kernel_size [] st = Inr st"
| "dense_net_blocks K nb_layers growth_rate bottleneck dropout_rate weight_decay compression
     transition_dilation_rate transition_pooling transition_kernel_size (block_idx # rest)
     (x, nb_filter) =
    bind (getitem nb_layers (int block_idx)) (\<lambda>n.
      case dense_block K x n nb_filter growth_rate bottleneck dropout_rate weight_decay
             True False of
        (x, nb_filter, _) \<Rightarrow>
          bind (transition_block K x nb_filter compression dropout_rate weight_decay
                  transition_dilation_rate transition_pooling transition_kernel_size)
            (\<lambda>x. dense_net_blocks K nb_layers growth_rate bottleneck dropout_rate weight_decay
                    compression transition_dilation_rate transition_pooling
                    transition_kernel_size rest
                    (x, py_int (of_int nb_filter * compression))))"

text \<open>
  \<open>row * col\<close> in the segmentation top: \<open>None\<close> as an operand raises \<open>TypeError\<close>.
\<close>

fun mul_dim :: "dim \<Rightarrow> dim \<Rightarrow> error + int" where
  "mul_dim (Some a) (Some b) = Inr (a * b)"
| "mul_dim _ _ = Inl TypeError"

fun need_dim :: "dim \<Rightarrow> error + int" where
  "need_dim (Some a) = Inr a"
| "need_dim None = Inl TypeError"

text \<open>
  \<open>__create_dense_net\<close>. \<open>nb_layers_per_block is not -1\<close> and
  \<open>top is 'classification'\<close> compare identities; for the small integer and the
  interned literals they agree with equality, which the model uses. \<open>input_shape\<close>
  defaults to \<open>None\<close>, which cannot be unpacked. In the segmentation top the reshape
  to \<open>(row * col, nb_classes)\<close> needs both dimensions. The parameter \<open>top\<close> is
  written \<open>top'\<close>.
\<close>

definition create_dense_net ::
  "keras \<Rightarrow> int \<Rightarrow> tensor \<Rightarrow> bool \<Rightarrow> string option \<Rightarrow> int option \<Rightarrow> int \<Rightarrow> int \<Rightarrow> int \<Rightarrow>
   layers_arg \<Rightarrow> bool \<Rightarrow> pyfloat \<Rightarrow> pyfloat option \<Rightarrow> pyfloat \<Rightarrow> dilation \<Rightarrow> string option \<Rightarrow>
   int \<times> int \<Rightarrow> shape option \<Rightarrow> string \<Rightarrow> error + tensor" where
  "create_dense_net K nb_classes img_input include_top top' depth nb_dense_block growth_rate
     nb_filter nb_layers_per_block bottleneck reduction dropout_rate weight_decay
     transition_dilation_rate transition_pooling transition_kernel_size input_shape activation =
    (let concat_axis = concat_axis_of K in
     bind (case depth of
             Some d \<Rightarrow> assert ((d - 4) mod 3 = 0) ''Depth must be nb_dense_block * N + 4''
           | None \<Rightarrow> assert (nb_layers_per_block \<noteq> LInt (- 1))
               ''Depth cannot be None when nb_layers_per_block is -1. Specify either parameter.'')
     (\<lambda>_. bind (if reduction \<noteq> 0
                 then assert (reduction \<le> 1 \<and> reduction > 0)
                        ''reduction value must lie between 0.0 and 1.0''
                 else Inr ())
     (\<lambda>_. bind (dense_net_layers depth nb_dense_block nb_layers_per_block bottleneck)
     (\<lambda>(nb_layers, final_nb_layer).
        let nb_filter = (if nb_filter \<le> 0 then 2 * growth_rate else nb_filter);
            compression = 1 - reduction;
            x = Apply (Conv2D nb_filter (3, 3) weight_decay None None (Some ''initial_conv2D''))
                  [img_input]
        in bind (dense_net_blocks K nb_layers growth_rate bottleneck dropout_rate weight_decay
                   compression transition_dilation_rate transition_pooling
                   transition_kernel_size [0..<nat (nb_dense_block - 1)] (x, nb_filter))
     (\<lambda>(x, nb_filter).
        case dense_block K x final_nb_layer nb_filter growth_rate bottleneck dropout_rate
               weight_decay True False of
          (x, nb_filter, _) \<Rightarrow>
            (let x = Apply (BatchNormalization concat_axis weight_decay) [x];
                 x = Apply (Activation ''relu'') [x]
             in if include_top \<and> top' = Some ''classification'' then
                  (let x = Apply GlobalAveragePooling2D [x]
                   in Inr (Apply (Dense nb_classes activation weight_decay) [x]))
                else if include_top \<and> top' = Some ''segmentation'' then
                  (let x = Apply (Conv2D nb_classes (1, 1) weight_decay None (Some ''linear'') None)
                             [x]
                   in case input_shape of
                        None \<Rightarrow> Inl TypeError
                      | Some (a, b, c) \<Rightarrow>
                          (let (row, col) =
                                 (if image_data_format K = ''channels_first'' then (b, c)
                                  else (a, b))
                           in bind (mul_dim row col) (\<lambda>rc.
                              bind (need_dim row) (\<lambda>r.
                              bind (need_dim col) (\<lambda>c.
                                let x = Apply (Reshape [rc, nb_classes]) [x];
                                    x = Apply (Activation activation) [x]
                                in Inr (Apply (Reshape [r, c, nb_classes]) [x]))))))
                else Inr x))))))"

subsection \<open>\<open>DenseNet\<close>\<close>

text \<open>
  What \<open>DenseNet\<close> does to the world after the model is built, in order:
  \<open>get_file(fname, origin, cache_subdir='models')\<close> fetches the file at the URL,
  \<open>model.load_weights\<close> loads the fetched file (named here by \<open>fname\<close>),
  \<open>warnings.warn\<close>, and \<open>convert_all_kernels_in_model\<close>.
\<close>

datatype effect =
    GetFile string string
  | LoadWeights string
  | Warn
  | ConvertAllKernels

definition TH_WEIGHTS_PATH :: string where
  "TH_WEIGHTS_PATH = ''https://github.com/titu1994/DenseNet/releases/download/v2.0/DenseNet-40-12-Theano-Backend-TH-dim-ordering.h5''"

definition TF_WEIGHTS_PATH :: string where
  "TF_WEIGHTS_PATH = ''https://github.com/titu1994/DenseNet/releases/download/v2.0/DenseNet-40-12-Tensorflow-Backend-TF-dim-ordering.h5''"

definition TH_WEIGHTS_PATH_NO_TOP :: string where
  "TH_WEIGHTS_PATH_NO_TOP = ''https://github.com/titu1994/DenseNet/releases/download/v2.0/DenseNet-40-12-Theano-Backend-TH-dim-ordering-no-top.h5''"

definition TF_WEIGHTS_PATH_NO_TOP :: string where
  "TF_WEIGHTS_PATH_NO_TOP = ''https://github.com/titu1994/DenseNet/releases/download/v2.0/DenseNet-40-12-Tensorflow-Backend-TF-dim-ordering-no-top.h5''"

text \<open>
  Lines 172 to 212: the effects of the weight loading. \<open>bottleneck is False\<close> holds
  for the Boolean \<open>False\<close>; \<open>dropout_rate == 0.0\<close> fails for \<open>None\<close>.
\<close>

definition load_weights ::
  "keras \<Rightarrow> int option \<Rightarrow> int \<Rightarrow> int \<Rightarrow> int \<Rightarrow> bool \<Rightarrow> pyfloat \<Rightarrow> pyfloat option \<Rightarrow> pyfloat \<Rightarrow>
   bool \<Rightarrow> string option \<Rightarrow> effect list" where
  "load_weights K depth nb_dense_block growth_rate nb_filter bottleneck reduction dropout_rate
     weight_decay include_top weights =
    (if weights = Some ''cifar10'' then
       (if depth = Some 40 \<and> nb_dense_block = 3 \<and> growth_rate = 12 \<and> nb_filter = 16 \<and>
           bottleneck = False \<and> reduction = 0 \<and> dropout_rate = Some 0 \<and>
           weight_decay = 1 / 10000 then
          (if image_data_format K = ''channels_first'' then
             (let weights_path =
                    (if include_top then ''densenet_40_12_th_dim_ordering_th_kernels.h5''
                     else ''densenet_40_12_th_dim_ordering_th_kernels_no_top.h5'')
              in [GetFile weights_path
                    (if include_top then TH_WEIGHTS_PATH else TH_WEIGHTS_PATH_NO_TOP),
                  LoadWeights weights_path] @
                 (if backend K = ''tensorflow'' then [Warn, ConvertAllKernels] else []))
           else
             (let weights_path =
                    (if include_top then ''densenet_40_12_tf_dim_ordering_tf_kernels.h5''
                     else ''densenet_40_12_tf_dim_ordering_tf_kernels_no_top.h5'')
              in [GetFile weights_path
                    (if include_top then TF_WEIGHTS_PATH else TF_WEIGHTS_PATH_NO_TOP),
                  LoadWeights weights_path] @
                 (if backend K = ''theano'' then [ConvertAllKernels] else [])))
        else [])
     else [])"

text \<open>Lines 148 to 154 and 164 to 167, shared by both entry points.\<close>

definition make_img_input :: "given_tensor option \<Rightarrow> shape \<Rightarrow> tensor" where
  "make_img_input input_tensor input_shape =
    (case input_tensor of
       None \<Rightarrow> Input input_shape
     | Some t \<Rightarrow> if \<not> is_keras_tensor t then InputOf t input_shape else Given t)"

definition make_inputs :: "given_tensor option \<Rightarrow> tensor \<Rightarrow> model_inputs" where
  "make_inputs input_tensor img_input =
    (case input_tensor of Some t \<Rightarrow> SourceInputs t | None \<Rightarrow> Inputs img_input)"

text \<open>
  \<open>DenseNet\<close> returns the model together with the effects of the weight loading.
  \<open>transition_dilation_rate is 1\<close> holds for the integer 1.
\<close>

definition DenseNet ::
  "keras \<Rightarrow> shape option \<Rightarrow> int option \<Rightarrow> int \<Rightarrow> int \<Rightarrow> int \<Rightarrow> layers_arg \<Rightarrow> bool \<Rightarrow> pyfloat \<Rightarrow>
   pyfloat option \<Rightarrow> pyfloat \<Rightarrow> bool \<Rightarrow> string option \<Rightarrow> string option \<Rightarrow> given_tensor option \<Rightarrow>
   int \<Rightarrow> dilation \<Rightarrow> string option \<Rightarrow> int \<times> int \<Rightarrow> string \<Rightarrow> error + model \<times> effect list" where
  \<open>DenseNet K input_shape depth nb_dense_block growth_rate nb_filter nb_layers_per_block
     bottleneck reduction dropout_rate weight_decay include_top top' weights input_tensor
     classes transition_dilation_rate transition_pooling transition_kernel_size activation =
    (if weights \<noteq> Some ''cifar10'' \<and> weights \<noteq> None then
       Inl (ValueError (''The `weights` argument should be either '' @
                        ''`None` (random initialization) or `cifar10` '' @
                        ''(pre-training on CIFAR-10).''))
     else if weights = Some ''cifar10'' \<and> include_top \<and> classes \<noteq> 10 then
       Inl (ValueError (''If using `weights` as CIFAR 10 with `include_top`'' @
                        '' as true, `classes` should be 10''))
     else if activation \<notin> set [''softmax'', ''sigmoid''] then
       Inl (ValueError ''activation must be one of "softmax" or "sigmoid"'')
     else if activation = ''sigmoid'' \<and> classes \<noteq> 1 then
       Inl (ValueError ''sigmoid activation can only be used when classes = 1'')
     else
       bind (obtain_input_shape K input_shape 32 8 (image_data_format K)
               (include_top \<and> transition_dilation_rate = DilInt 1))
       (\<lambda>input_shape.
          let img_input = make_img_input input_tensor input_shape
          in bind (create_dense_net K classes img_input include_top top' depth nb_dense_block
                     growth_rate nb_filter nb_layers_per_block bottleneck reduction
                     dropout_rate weight_decay transition_dilation_rate transition_pooling
                     transition_kernel_size (Some input_shape) activation)
       (\<lambda>x. let inputs = make_inputs input_tensor img_input;
                 model = Model inputs x ''densenet''
             in Inr (model,
                     load_weights K depth nb_dense_block growth_rate nb_filter bottleneck
                       reduction dropout_rate weight_decay include_top weights))))\<close>

section \<open>The fully convolutional network\<close>

text \<open>
  Lines 713 to 724 of \<open>__create_fcn_dense_net\<close>: the layers of every dense block, down
  path, bottleneck and up path, and the layers of the bottleneck block.
\<close>

definition fcn_layers :: "int \<Rightarrow> layers_arg \<Rightarrow> error + (int list \<times> int)" where
  "fcn_layers nb_dense_block nb_layers_per_block =
    (let from_list = (\<lambda>nb_layers.
           bind (assert (int (length nb_layers) = nb_dense_block + 1)
                   ''If list, nb_layer is used as provided. Note that list size must be (nb_dense_block + 1)'')
             (\<lambda>_. bind (getitem nb_layers (- 1))
               (\<lambda>bottleneck_nb_layers.
                  let rev_layers = rev nb_layers
                  in Inr (nb_layers @ drop 1 rev_layers, bottleneck_nb_layers))))
     in case nb_layers_per_block of
          LList l \<Rightarrow> from_list l
        | LTuple l \<Rightarrow> from_list l
        | LInt n \<Rightarrow> Inr (replicate (nat (2 * nb_dense_block + 1)) n, n))"

text \<open>
  The loop of lines 738 to 750, on the state \<open>(x, nb_filter, skip_list)\<close>. The
  transition block is called with its defaults for the dilation rate, the pooling and
  the kernel size; the dense block with its default \<open>bottleneck=False\<close>.
\<close>

fun fcn_down_blocks ::
  "keras \<Rightarrow> int list \<Rightarrow> int \<Rightarrow> pyfloat option \<Rightarrow> pyfloat \<Rightarrow> pyfloat \<Rightarrow> nat list \<Rightarrow>
   tensor \<times> int \<times> tensor list \<Rightarrow> error + tensor \<times> int \<times> tensor list" where
  "fcn_down_blocks K nb_layers growth_rate dropout_rate weight_decay compression [] st = Inr st"
| "fcn_down_blocks K nb_layers growth_rate dropout_rate weight_decay compression
     (block_idx # rest) (x, nb_filter, skip_list) =
    bind (getitem nb_layers (int block_idx)) (\<lambda>n.
      case dense_block K x n nb_filter growth_rate False dropout_rate weight_decay True False of
        (x, nb_filter, _) \<Rightarrow>
          (let skip_list = skip_list @ [x]
           in bind (transition_block K x nb_filter compression dropout_rate weight_decay
                      (DilInt 1) (Some ''avg'') (1, 1))
                (\<lambda>x. fcn_down_blocks K nb_layers growth_rate dropout_rate weight_decay
                        compression rest
                        (x, py_int (of_int nb_filter * compression), skip_list))))"

text \<open>
  The initial \<open>out_shape\<close> (lines 761 to 764); \<open>rows // 16\<close> raises \<open>TypeError\<close>
  for a dimension that is \<open>None\<close>. Then the two updates of \<open>out_shape\<close> in the loop:
  the channel entry is set (lines 770 to 773), the spatial entries are doubled (lines 791
  to 796).
\<close>

definition initial_out_shape ::
  "keras \<Rightarrow> int option \<Rightarrow> int \<Rightarrow> dim \<Rightarrow> dim \<Rightarrow> error + out_shape" where
  "initial_out_shape K batchsize nb_filter rows cols =
    bind (need_dim rows) (\<lambda>r. bind (need_dim cols) (\<lambda>c.
      if image_data_format K = ''channels_first''
      then Inr (batchsize, nb_filter, r div 16, c div 16)
      else Inr (batchsize, r div 16, c div 16, nb_filter)))"

fun set_channels :: "keras \<Rightarrow> out_shape \<Rightarrow> int \<Rightarrow> out_shape" where
  "set_channels K (s0, s1, s2, s3) n =
    (if image_data_format K = ''channels_first'' then (s0, n, s2, s3) else (s0, s1, s2, n))"

fun double_spatial :: "keras \<Rightarrow> out_shape \<Rightarrow> out_shape" where
  "double_spatial K (s0, s1, s2, s3) =
    (if image_data_format K = ''channels_first'' then (s0, s1, s2 * 2, s3 * 2)
     else (s0, s1 * 2, s2 * 2, s3))"

text \<open>
  The loop of lines 767 to 802, on the state \<open>(x, out_shape, nb_filter, concat_list)\<close>.
  \<open>__transition_up_block\<close> is called without \<open>weight_decay\<close> and takes its default
  \<open>1E-4\<close>. The list \<open>out_shape\<close> is handed to the layer with the entries it has at the
  call. A dense block called with \<open>return_concat_list=True\<close> returns three values; the
  unpacking of two would raise \<open>ValueError\<close>.
\<close>

fun fcn_up_blocks ::
  "keras \<Rightarrow> int list \<Rightarrow> int \<Rightarrow> int \<Rightarrow> pyfloat option \<Rightarrow> pyfloat \<Rightarrow> string \<Rightarrow> tensor list \<Rightarrow>
   nat list \<Rightarrow> tensor \<times> out_shape \<times> int \<times> tensor list \<Rightarrow>
   error + tensor \<times> out_shape \<times> int \<times> tensor list" where
  "fcn_up_blocks K nb_layers nb_dense_block growth_rate dropout_rate weight_decay upsampling_type
     skip_list [] st = Inr st"
| "fcn_up_blocks K nb_layers nb_dense_block growth_rate dropout_rate weight_decay upsampling_type
     skip_list (block_idx # rest) (x, out_shape, nb_filter, concat_list) =
    bind (getitem nb_layers (nb_dense_block + int block_idx)) (\<lambda>n_keep.
      let n_filters_keep = growth_rate * n_keep;
          out_shape = set_channels K out_shape n_filters_keep;
          l = Apply (Merge_concat (concat_axis_of K)) (drop 1 concat_list);
          t = transition_up_block l n_filters_keep upsampling_type (Some out_shape) (1 / 10000)
      in bind (getitem skip_list (int block_idx)) (\<lambda>skip.
           let x = Apply (Merge_concat (concat_axis_of K)) [t, skip];
               out_shape = double_spatial K out_shape
           in bind (getitem nb_layers (nb_dense_block + int block_idx + 1)) (\<lambda>n.
                case dense_block K x n growth_rate growth_rate False dropout_rate weight_decay
                       False True of
                  (_, nb_filter, Some concat_list) \<Rightarrow>
                    fcn_up_blocks K nb_layers nb_dense_block growth_rate dropout_rate
                      weight_decay upsampling_type skip_list rest
                      (x, out_shape, nb_filter, concat_list)
                | (_, _, None) \<Rightarrow> Inl (ValueError ''not enough values to unpack''))))"

text \<open>
  \<open>__create_fcn_dense_net\<close>. Its last statement tests
  \<open>include_top and top is 'classification'\<close>. The function has no parameter \<open>top\<close>
  and the module binds no such global, so the right operand raises \<open>NameError\<close>; it is
  evaluated exactly when \<open>include_top\<close> is true. When \<open>include_top\<close> is false the
  test is false, the body of the \<open>if\<close> is skipped and \<open>x\<close> is returned. The body is
  therefore never run and has no counterpart here. The three \<open>transition_*\<close>
  parameters and \<open>nb_classes\<close>, \<open>activation\<close> are used nowhere else.
\<close>

definition create_fcn_dense_net ::
  "keras \<Rightarrow> int \<Rightarrow> tensor \<Rightarrow> bool \<Rightarrow> int \<Rightarrow> int \<Rightarrow> pyfloat \<Rightarrow> pyfloat option \<Rightarrow> pyfloat \<Rightarrow>
   layers_arg \<Rightarrow> int \<Rightarrow> string \<Rightarrow> int option \<Rightarrow> int \<Rightarrow> dilation \<Rightarrow> string option \<Rightarrow> int \<times> int \<Rightarrow>
   string \<Rightarrow> shape option \<Rightarrow> error + tensor" where
  "create_fcn_dense_net K nb_classes img_input include_top nb_dense_block growth_rate reduction
     dropout_rate weight_decay nb_layers_per_block nb_upsampling_conv upsampling_type batchsize
     init_conv_filters transition_dilation_rate transition_pooling transition_kernel_size
     activation input_shape =
    (case input_shape of
       None \<Rightarrow> Inl TypeError
     | Some (a, b, c) \<Rightarrow>
    (let (rows, cols) = (if concat_axis_of K = 1 then (b, c) else (a, b)) in
     bind (if reduction \<noteq> 0
           then assert (reduction \<le> 1 \<and> reduction > 0)
                  ''reduction value must lie between 0.0 and 1.0''
           else Inr ())
     (\<lambda>_. bind (assert (nb_upsampling_conv \<ge> 12 \<and> nb_upsampling_conv mod 4 = 0)
                  (''Parameter `upsampling_conv` number of channels must '' @
                   ''be a positive number divisible by 4 and greater '' @
                   ''than 12''))
     (\<lambda>_. bind (fcn_layers nb_dense_block nb_layers_per_block)
     (\<lambda>(nb_layers, bottleneck_nb_layers).
        let compression = 1 - reduction;
            x = Apply (Conv2D init_conv_filters (3, 3) weight_decay None None
                         (Some ''initial_conv2D'')) [img_input];
            nb_filter = init_conv_filters;
            skip_list = []
        in bind (fcn_down_blocks K nb_layers growth_rate dropout_rate weight_decay compression
                   [0..<nat nb_dense_block] (x, nb_filter, skip_list))
     (\<lambda>(x, nb_filter, skip_list).
        case dense_block K x bottleneck_nb_layers nb_filter growth_rate False dropout_rate
               weight_decay True True of
          (_, _, None) \<Rightarrow> Inl (ValueError ''not enough values to unpack'')
        | (_, nb_filter, Some concat_list) \<Rightarrow>
            (let skip_list = rev skip_list
             in bind (initial_out_shape K batchsize nb_filter rows cols)
     (\<lambda>out_shape.
        bind (fcn_up_blocks K nb_layers nb_dense_block growth_rate dropout_rate weight_decay
                upsampling_type skip_list [0..<nat nb_dense_block]
                (x, out_shape, nb_filter, concat_list))
     (\<lambda>(x, out_shape, nb_filter, concat_list).
        if include_top then Inl (NameError ''top'') else Inr x)))))))))"

subsection \<open>\<open>DenseNetFCN\<close>\<close>

text \<open>\<open>str.lower\<close> on ASCII letters.\<close>

definition lower_char :: "char \<Rightarrow> char" where
  "lower_char c =
    (case map_of (zip ''ABCDEFGHIJKLMNOPQRSTUVWXYZ'' ''abcdefghijklmnopqrstuvwxyz'') c of
       Some d \<Rightarrow> d
     | None \<Rightarrow> c)"

definition lower :: "string \<Rightarrow> string" where
  "lower s = map lower_char s"

text \<open>
  Lines 290 to 317: the checks of \<open>DenseNetFCN\<close> that precede the first framework
  call; the result is the lower-cased \<open>upsampling_type\<close>. The check of line 309 tests
  \<open>nb_dense_block < 1\<close>. Its message is built with
  \<open>'... %d.' % (nb_layers_per_block)\<close>, which itself raises \<open>TypeError\<close> for a tuple
  that does not have exactly one element; the model keeps the format string as the
  message.
\<close>

definition DenseNetFCN_checks ::
  "shape option \<Rightarrow> int \<Rightarrow> layers_arg \<Rightarrow> string option \<Rightarrow> int \<Rightarrow> string \<Rightarrow> string \<Rightarrow> int option \<Rightarrow>
   error + string" where
  \<open>DenseNetFCN_checks input_shape nb_dense_block nb_layers_per_block weights classes activation
     upsampling_type batchsize =
    (if weights \<noteq> None then
       Inl (ValueError (''The `weights` argument should be '' @
                        ''`None` (random initialization) as no '' @
                        ''model weights are provided.''))
     else
       let upsampling_type = lower upsampling_type
       in if upsampling_type \<notin> set [''upsampling'', ''deconv'', ''subpixel''] then
            Inl (ValueError (''Parameter "upsampling_type" must be one of '' @
                             ''"upsampling", "deconv", or "subpixel".''))
          else if upsampling_type = ''deconv'' \<and> batchsize = None then
            Inl (ValueError (''If "upsampling_type" is deconvoloution, then a fixed '' @
                             ''batch size must be provided in batchsize parameter.''))
          else if input_shape = None then
            Inl (ValueError ''For fully convolutional models, input shape must be supplied.'')
          else if (case nb_layers_per_block of LList _ \<Rightarrow> False | _ \<Rightarrow> True) \<and>
                  nb_dense_block < 1 then
            (case nb_layers_per_block of
               LTuple t \<Rightarrow>
                 if length t = 1 then
                   Inl (ValueError (''Number of dense layers per block must be greater than 1. Argument '' @
                                    ''value was %d.''))
                 else Inl TypeError
             | _ \<Rightarrow>
                 Inl (ValueError (''Number of dense layers per block must be greater than 1. Argument '' @
                                  ''value was %d.'')))
          else if activation \<notin> set [''softmax'', ''sigmoid''] then
            Inl (ValueError ''activation must be one of "softmax" or "sigmoid"'')
          else if activation = ''sigmoid'' \<and> classes \<noteq> 1 then
            Inl (ValueError ''sigmoid activation can only be used when classes = 1'')
          else Inr upsampling_type)\<close>

text \<open>
  Python binds the positional arguments of a call to the parameters of the callee before
  the callee's body runs, and raises \<open>TypeError\<close> when there are more positional
  arguments than parameters.
\<close>

definition check_arity :: "nat \<Rightarrow> nat \<Rightarrow> error + unit" where
  "check_arity nb_params nb_args = (if nb_args > nb_params then Inl TypeError else Inr ())"

text \<open>
  \<open>DenseNetFCN\<close>. The call of lines 337 to 342 passes nineteen positional arguments
  (\<open>input_shape\<close> twice: after \<open>init_conv_filters\<close> and at the end), and
  \<open>__create_fcn_dense_net\<close> (lines 647 to 655) has eighteen parameters. The call is
  modelled by the arity check followed by the callee on the arguments without the
  first \<open>input_shape\<close>; the check fails, so the callee is never entered from here.
  The parameter \<open>top\<close> (written \<open>top'\<close>) is not used by the body.
\<close>

definition DenseNetFCN ::
  "keras \<Rightarrow> shape option \<Rightarrow> int \<Rightarrow> int \<Rightarrow> layers_arg \<Rightarrow> pyfloat \<Rightarrow> pyfloat option \<Rightarrow> pyfloat \<Rightarrow> int \<Rightarrow>
   bool \<Rightarrow> string option \<Rightarrow> string option \<Rightarrow> given_tensor option \<Rightarrow> int \<Rightarrow> string \<Rightarrow> int \<Rightarrow> string \<Rightarrow>
   int option \<Rightarrow> dilation \<Rightarrow> string option \<Rightarrow> int \<times> int \<Rightarrow> error + model" where
  "DenseNetFCN K input_shape nb_dense_block growth_rate nb_layers_per_block reduction
     dropout_rate weight_decay init_conv_filters include_top top' weights input_tensor classes
     activation upsampling_conv upsampling_type batchsize transition_dilation_rate
     transition_pooling transition_kernel_size =
    bind (DenseNetFCN_checks input_shape nb_dense_block nb_layers_per_block weights classes
            activation upsampling_type batchsize)
    (\<lambda>upsampling_type.
       bind (obtain_input_shape K input_shape 32 16 (image_data_format K) False)
    (\<lambda>input_shape.
       let img_input = make_img_input input_tensor input_shape
       in bind (check_arity 18 19)
    (\<lambda>_. bind (create_fcn_dense_net K classes img_input include_top nb_dense_block growth_rate
                  reduction dropout_rate weight_decay nb_layers_per_block upsampling_conv
                  upsampling_type batchsize init_conv_filters transition_dilation_rate
                  transition_pooling transition_kernel_size activation (Some input_shape))
    (\<lambda>x. let inputs = make_inputs input_tensor img_input
          in Inr (Model inputs x ''fcn-densenet'')))))"

section \<open>A concrete framework\<close>

text \<open>
  For evaluating the functions on concrete arguments: the TensorFlow backend with the
  \<open>channels_last\<close> data format, and \<open>_obtain_input_shape\<close> as Keras 2.0 defines it
  (messages shortened). With \<open>include_top\<close> the shape must be the default shape;
  otherwise it must have three channels and known spatial sizes of at least
  \<open>min_size\<close>, and \<open>None\<close> stands for unknown sizes.
\<close>

definition obtain_input_shape_keras2 ::
  "shape option \<Rightarrow> int \<Rightarrow> int \<Rightarrow> string \<Rightarrow> bool \<Rightarrow> error + shape" where
  "obtain_input_shape_keras2 input_shape default_size min_size data_format include_top =
    (let default_shape =
           (if data_format = ''channels_first''
            then (Some 3, Some default_size, Some default_size)
            else (Some default_size, Some default_size, Some 3))
     in if include_top then
          (case input_shape of
             None \<Rightarrow> Inr default_shape
           | Some s \<Rightarrow>
               if s \<noteq> default_shape then Inl (ValueError ''input_shape'')
               else Inr default_shape)
        else
          (case input_shape of
             None \<Rightarrow>
               Inr (if data_format = ''channels_first'' then (Some 3, None, None)
                    else (None, None, Some 3))
           | Some (a, b, c) \<Rightarrow>
               (let (ch, r, w) =
                      (if data_format = ''channels_first'' then (a, b, c) else (c, a, b))
                in if ch \<noteq> Some 3 then Inl (ValueError ''input_shape'')
                   else if (case r of None \<Rightarrow> False | Some v \<Rightarrow> v < min_size) \<or>
                           (case w of None \<Rightarrow> False | Some v \<Rightarrow> v < min_size)
                        then Inl (ValueError ''input_shape'')
                        else Inr (a, b, c))))"

definition keras_tf :: keras where
  "keras_tf = \<lparr> image_data_format = ''channels_last'', backend = ''tensorflow'',
                obtain_input_shape = obtain_input_shape_keras2 \<rparr>"

section \<open>Reading a graph\<close>

text \<open>
  The tensor a conv block of a dense block is fed with: the block's input when no conv
  block has run yet, otherwise the concatenation of the block's input with the outputs
  \<open>cs\<close> of the conv blocks run so far.
\<close>

definition block_concat :: "keras \<Rightarrow> tensor \<Rightarrow> tensor list \<Rightarrow> tensor" where
  "block_concat K x cs = (if cs = [] then x else Apply (Merge_concat (concat_axis_of K)) (x # cs))"



section \<open>Basic facts\<close>

lemma bind_Inl: "bind (Inl e) f = Inl e"
  by (simp add: bind_def)

lemma bind_Inr: "bind (Inr v) f = f v"
  by (simp add: bind_def)

lemma bind_never_returns: "(\<And>v. \<exists>e. f v = Inl e) \<Longrightarrow> \<exists>e. bind m f = Inl e"
  by (cases m) (simp_all add: bind_def)

lemma bind_returns: "bind m f = Inr r \<Longrightarrow> \<exists>v. m = Inr v \<and> f v = Inr r"
  by (cases m) (simp_all add: bind_def)

lemma getitem_nat: "i < length xs \<Longrightarrow> getitem xs (int i) = Inr (xs ! i)"
  by (simp add: getitem_def)

lemma getitem_last: "xs \<noteq> [] \<Longrightarrow> getitem xs (- 1) = Inr (last xs)"
  by (cases xs rule: rev_cases) (simp_all add: getitem_def)

lemma dense_block_loop_spec:
  "\<exists>cs. length cs = n \<and>
     (\<forall>i<n. cs ! i = conv_block K (block_concat K x0 (pre @ take i cs)) g b d w) \<and>
     dense_block_loop K n g b d w grow (block_concat K x0 pre, x0 # pre, nf) =
       (block_concat K x0 (pre @ cs), x0 # pre @ cs, if grow then nf + int n * g else nf)"
proof (induction n arbitrary: pre nf)
  case 0
  show ?case by simp
next
  case (Suc n)
  define c where "c = conv_block K (block_concat K x0 pre) g b d w"
  define nf' where "nf' = (if grow then nf + g else nf)"
  from Suc.IH [of "pre @ [c]" nf'] obtain cs where
    len: "length cs = n" and
    nth: "\<forall>i<n. cs ! i = conv_block K (block_concat K x0 ((pre @ [c]) @ take i cs)) g b d w" and
    run: "dense_block_loop K n g b d w grow (block_concat K x0 (pre @ [c]), x0 # (pre @ [c]), nf') =
            (block_concat K x0 ((pre @ [c]) @ cs), x0 # (pre @ [c]) @ cs,
             if grow then nf' + int n * g else nf')"
    by blast
  have step: "dense_block_loop K (Suc n) g b d w grow (block_concat K x0 pre, x0 # pre, nf) =
     dense_block_loop K n g b d w grow (block_concat K x0 (pre @ [c]), x0 # (pre @ [c]), nf')"
    by (simp add: c_def nf'_def block_concat_def Let_def)
  have "length (c # cs) = Suc n" using len by simp
  moreover have "\<forall>i<Suc n. (c # cs) ! i =
      conv_block K (block_concat K x0 (pre @ take i (c # cs))) g b d w"
  proof (intro allI impI)
    fix i assume "i < Suc n"
    show "(c # cs) ! i = conv_block K (block_concat K x0 (pre @ take i (c # cs))) g b d w"
    proof (cases i)
      case 0
      then show ?thesis by (simp add: c_def)
    next
      case (Suc j)
      with \<open>i < Suc n\<close> nth show ?thesis by simp
    qed
  qed
  moreover have "dense_block_loop K (Suc n) g b d w grow (block_concat K x0 pre, x0 # pre, nf) =
      (block_concat K x0 (pre @ c # cs), x0 # pre @ c # cs,
       if grow then nf + int (Suc n) * g else nf)"
    using run by (simp only: step) (simp add: nf'_def algebra_simps)
  ultimately show ?case by blast
qed

lemma dense_block_spec:
  "\<exists>cs. length cs = nat nb_layers \<and>
     (\<forall>i<nat nb_layers. cs ! i = conv_block K (block_concat K x (take i cs)) g b d w) \<and>
     dense_block K x nb_layers nf g b d w grow rcl =
       (block_concat K x cs, if grow then nf + max 0 nb_layers * g else nf,
        if rcl then Some (x # cs) else None)"
proof -
  from dense_block_loop_spec [of "nat nb_layers" K x "[]" g b d w grow nf]
  obtain cs where "length cs = nat nb_layers"
    "\<forall>i<nat nb_layers. cs ! i = conv_block K (block_concat K x (take i cs)) g b d w"
    "dense_block_loop K (nat nb_layers) g b d w grow (x, [x], nf) =
       (block_concat K x cs, x # cs, if grow then nf + int (nat nb_layers) * g else nf)"
    by (auto simp: block_concat_def)
  moreover have "int (nat nb_layers) = max 0 nb_layers" by simp
  ultimately show ?thesis
    unfolding dense_block_def by (intro exI [of _ cs]) simp
qed

lemma dense_block_with_list:
  "\<exists>u nf' cl. dense_block K x n nf g b d w grow True = (u, nf', Some cl)"
  using dense_block_spec [of n K x g b d w nf grow True] by auto

lemma transition_block_avg:
  "\<exists>y. transition_block K ip nf c dr wd dil (Some ''avg'') ks = Inr y"
  by (simp add: transition_block_def Let_def)

lemma fcn_down_blocks_ok:
  "\<forall>i\<in>set idxs. i < length nb_layers \<Longrightarrow>
   \<exists>x' nf' sk. fcn_down_blocks K nb_layers g dr wd c idxs (x, nf, skip) = Inr (x', nf', skip @ sk)
      \<and> length sk = length idxs"
proof (induction idxs arbitrary: x nf skip)
  case Nil
  show ?case by simp
next
  case (Cons i idxs)
  obtain x1 nf1 cl where db: "dense_block K x (nb_layers ! i) nf g False dr wd True False = (x1, nf1, cl)"
    by (cases "dense_block K x (nb_layers ! i) nf g False dr wd True False") auto
  obtain y where tb: "transition_block K x1 nf1 c dr wd (DilInt 1) (Some ''avg'') (1, 1) = Inr y"
    using transition_block_avg by blast
  from Cons.prems have "\<forall>i\<in>set idxs. i < length nb_layers" and i: "i < length nb_layers" by auto
  from Cons.IH [OF this(1), of y "py_int (of_int nf1 * c)" "skip @ [x1]"]
  obtain x' nf' sk where
    "fcn_down_blocks K nb_layers g dr wd c idxs (y, py_int (of_int nf1 * c), skip @ [x1]) =
       Inr (x', nf', (skip @ [x1]) @ sk)" "length sk = length idxs"
    by blast
  then have "fcn_down_blocks K nb_layers g dr wd c (i # idxs) (x, nf, skip) =
       Inr (x', nf', skip @ (x1 # sk)) \<and> length (x1 # sk) = length (i # idxs)"
    by (simp add: getitem_nat [OF i] bind_Inr db tb Let_def)
  then show ?case by blast
qed

lemma fcn_up_blocks_ok:
  "0 \<le> nb \<Longrightarrow> \<forall>i\<in>set idxs. nat nb + i + 1 < length nb_layers \<and> i < length skip_list \<Longrightarrow>
   \<exists>r. fcn_up_blocks K nb_layers nb g dr wd ut skip_list idxs (x, os, nf, cl) = Inr r"
proof (induction idxs arbitrary: x os nf cl)
  case Nil
  show ?case by (simp only: fcn_up_blocks.simps) blast
next
  case (Cons i idxs)
  from Cons.prems have i1: "nat nb + i + 1 < length nb_layers" and i2: "i < length skip_list"
    and rest: "\<forall>i\<in>set idxs. nat nb + i + 1 < length nb_layers \<and> i < length skip_list"
    by auto
  have e1: "nb + int i = int (nat nb + i)" and e2: "nb + int i + 1 = int (nat nb + i + 1)"
    using Cons.prems(1) by simp_all
  have g1: "getitem nb_layers (nb + int i) = Inr (nb_layers ! (nat nb + i))"
    unfolding e1 using i1 by (intro getitem_nat) simp
  have g2: "getitem nb_layers (nb + int i + 1) = Inr (nb_layers ! (nat nb + i + 1))"
    unfolding e2 using i1 by (intro getitem_nat) simp
  have g3: "getitem skip_list (int i) = Inr (skip_list ! i)"
    using i2 by (rule getitem_nat)
  define os1 where "os1 = set_channels K os (g * nb_layers ! (nat nb + i))"
  define x1 where "x1 = Apply (Merge_concat (concat_axis_of K))
    [transition_up_block (Apply (Merge_concat (concat_axis_of K)) (drop 1 cl))
       (g * nb_layers ! (nat nb + i)) ut (Some os1) (1 / 10000), skip_list ! i]"
  obtain u nf' cl' where db:
    "dense_block K x1 (nb_layers ! (nat nb + i + 1)) g g False dr wd False True = (u, nf', Some cl')"
    using dense_block_with_list by blast
  from Cons.IH [OF Cons.prems(1) rest, of x1 "double_spatial K os1" nf' cl']
  obtain r where
    "fcn_up_blocks K nb_layers nb g dr wd ut skip_list idxs (x1, double_spatial K os1, nf', cl') = Inr r"
    by blast
  then have "fcn_up_blocks K nb_layers nb g dr wd ut skip_list (i # idxs) (x, os, nf, cl) = Inr r"
    using db by (simp add: g1 g2 g3 bind_Inr Let_def os1_def x1_def)
  then show ?case by blast
qed

lemma py_int_of_int: "py_int (of_int n) = n"
  by (simp add: py_int_def)

lemma py_int_exact_div: "3 dvd n \<Longrightarrow> py_int (of_int n / 3) = n div 3"
proof -
  assume "3 dvd n"
  then obtain k where n: "n = 3 * k" by (auto simp: dvd_def)
  have "(of_int n :: rat) / 3 = of_int k" by (simp add: n)
  then show ?thesis by (simp add: py_int_of_int n)
qed

lemma fcn_layers_ok:
  assumes "case nlpb of LInt n \<Rightarrow> True
           | LList l \<Rightarrow> l \<noteq> [] \<and> int (length l) = nb + 1
           | LTuple l \<Rightarrow> l \<noteq> [] \<and> int (length l) = nb + 1"
  shows "\<exists>nbl bn. fcn_layers nb nlpb = Inr (nbl, bn) \<and> (0 \<le> nb \<longrightarrow> length nbl = nat (2 * nb + 1))"
proof -
  have from_list: "\<exists>nbl bn.
      bind (assert (int (length l) = nb + 1) msg)
        (\<lambda>_. bind (getitem l (- 1))
           (\<lambda>bottleneck_nb_layers.
              let rev_layers = rev l in Inr (l @ drop 1 rev_layers, bottleneck_nb_layers)))
      = Inr (nbl, bn) \<and> (0 \<le> nb \<longrightarrow> length nbl = nat (2 * nb + 1))"
    if "l \<noteq> []" "int (length l) = nb + 1" for l :: "int list" and msg
  proof -
    have "length (l @ drop 1 (rev l)) = nat (2 * nb + 1)" using that by (cases l) auto
    then show ?thesis using that
      by (simp add: assert_def bind_Inr getitem_last Let_def)
  qed
  show ?thesis
  proof (cases nlpb)
    case (LInt n)
    then show ?thesis by (simp add: fcn_layers_def Let_def)
  next
    case (LList l)
    with assms from_list [of l] show ?thesis by (simp add: fcn_layers_def Let_def)
  next
    case (LTuple l)
    with assms from_list [of l] show ?thesis by (simp add: fcn_layers_def Let_def)
  qed
qed

lemma create_fcn_dense_net_result:
  assumes shape: "input_shape = Some (a, b, c)"
    and dims: "(if concat_axis_of K = 1 then (b, c) else (a, b)) = (Some rows, Some cols)"
    and red: "reduction = 0 \<or> (0 < reduction \<and> reduction \<le> 1)"
    and ups: "12 \<le> nb_upsampling_conv \<and> nb_upsampling_conv mod 4 = 0"
    and lay: "case nb_layers_per_block of LInt n \<Rightarrow> True
           | LList l \<Rightarrow> l \<noteq> [] \<and> int (length l) = nb_dense_block + 1
           | LTuple l \<Rightarrow> l \<noteq> [] \<and> int (length l) = nb_dense_block + 1"
  shows "\<exists>x. create_fcn_dense_net K nb_classes img_input include_top nb_dense_block growth_rate
     reduction dropout_rate weight_decay nb_layers_per_block nb_upsampling_conv upsampling_type
     batchsize init_conv_filters transition_dilation_rate transition_pooling
     transition_kernel_size activation input_shape =
       (if include_top then Inl (NameError ''top'') else Inr x)"
proof -
  from fcn_layers_ok [OF lay] obtain nbl bn where
    layers: "fcn_layers nb_dense_block nb_layers_per_block = Inr (nbl, bn)" and
    len: "0 \<le> nb_dense_block \<longrightarrow> length nbl = nat (2 * nb_dense_block + 1)"
    by blast
  define x0 where "x0 = Apply (Conv2D init_conv_filters (3, 3) weight_decay None None
                         (Some ''initial_conv2D'')) [img_input]"
  have "\<forall>i\<in>set [0..<nat nb_dense_block]. i < length nbl" using len by auto
  from fcn_down_blocks_ok [OF this, of K growth_rate dropout_rate weight_decay "1 - reduction"
      x0 init_conv_filters "[]"]
  obtain x1 nf1 sk where
    down: "fcn_down_blocks K nbl growth_rate dropout_rate weight_decay (1 - reduction)
             [0..<nat nb_dense_block] (x0, init_conv_filters, []) = Inr (x1, nf1, sk)" and
    sk: "length sk = nat nb_dense_block"
    by auto
  obtain u nf2 cl where
    db: "dense_block K x1 bn nf1 growth_rate False dropout_rate weight_decay True True =
           (u, nf2, Some cl)"
    using dense_block_with_list by blast
  obtain os where os: "initial_out_shape K batchsize nf2 (Some rows) (Some cols) = Inr os"
    by (cases "image_data_format K = ''channels_first''")
       (simp_all add: initial_out_shape_def bind_Inr)
  have "\<exists>r. fcn_up_blocks K nbl nb_dense_block growth_rate dropout_rate weight_decay
          upsampling_type (rev sk) [0..<nat nb_dense_block] (x1, os, nf2, cl) = Inr r"
  proof (cases "0 \<le> nb_dense_block")
    case True
    then have "\<forall>i\<in>set [0..<nat nb_dense_block].
        nat nb_dense_block + i + 1 < length nbl \<and> i < length (rev sk)"
      using len sk by auto
    from fcn_up_blocks_ok [OF True this] show ?thesis .
  next
    case False
    then have "[0..<nat nb_dense_block] = []" by simp
    then show ?thesis by (simp only: fcn_up_blocks.simps) blast
  qed
  then obtain x2 os2 nf3 cl2 where
    up: "fcn_up_blocks K nbl nb_dense_block growth_rate dropout_rate weight_decay
          upsampling_type (rev sk) [0..<nat nb_dense_block] (x1, os, nf2, cl) =
            Inr (x2, os2, nf3, cl2)"
    by (metis prod_cases4)
  have asserts: "(if reduction \<noteq> 0
           then assert (reduction \<le> 1 \<and> reduction > 0) m1 else Inr ()) = Inr ()"
       "assert (nb_upsampling_conv \<ge> 12 \<and> nb_upsampling_conv mod 4 = 0) m2 = Inr ()"
    for m1 m2
    using red ups by (auto simp: assert_def)
  have "create_fcn_dense_net K nb_classes img_input include_top nb_dense_block growth_rate
     reduction dropout_rate weight_decay nb_layers_per_block nb_upsampling_conv upsampling_type
     batchsize init_conv_filters transition_dilation_rate transition_pooling
     transition_kernel_size activation input_shape =
       (if include_top then Inl (NameError ''top'') else Inr x2)"
    unfolding create_fcn_dense_net_def shape
    by (simp only: option.case prod.case dims Let_def asserts bind_Inr layers
          down [unfolded x0_def] db os up)
  then show ?thesis by blast
qed


lemma transition_block_not_max:
  "pool \<noteq> Some ''max'' \<Longrightarrow> \<exists>y. transition_block K ip nf c dr wd dil pool ks = Inr y"
  by (simp add: transition_block_def Let_def)

lemma dense_net_blocks_ok:
  "pool \<noteq> Some ''max'' \<Longrightarrow> \<forall>i\<in>set idxs. i < length nb_layers \<Longrightarrow>
   \<exists>r. dense_net_blocks K nb_layers g b dr wd c dil pool ks idxs (x, nf) = Inr r"
proof (induction idxs arbitrary: x nf)
  case Nil
  show ?case by simp
next
  case (Cons i idxs)
  obtain x1 nf1 cl where db: "dense_block K x (nb_layers ! i) nf g b dr wd True False = (x1, nf1, cl)"
    by (cases "dense_block K x (nb_layers ! i) nf g b dr wd True False") auto
  obtain y where tb: "transition_block K x1 nf1 c dr wd dil pool ks = Inr y"
    using transition_block_not_max [OF Cons.prems(1)] by blast
  from Cons.prems have rest: "\<forall>i\<in>set idxs. i < length nb_layers" and i: "i < length nb_layers"
    by auto
  from Cons.IH [OF Cons.prems(1) rest, of y "py_int (of_int nf1 * c)"]
  obtain r where
    "dense_net_blocks K nb_layers g b dr wd c dil pool ks idxs (y, py_int (of_int nf1 * c)) = Inr r"
    by blast
  then have "dense_net_blocks K nb_layers g b dr wd c dil pool ks (i # idxs) (x, nf) = Inr r"
    by (simp add: getitem_nat [OF i] bind_Inr db tb)
  then show ?case by blast
qed



lemma keras_tf_simps:
  "image_data_format keras_tf = ''channels_last''"
  "backend keras_tf = ''tensorflow''"
  "obtain_input_shape keras_tf = obtain_input_shape_keras2"
  "concat_axis_of keras_tf = - 1"
  by (simp_all add: keras_tf_def concat_axis_of_def)

lemma check_arity_18_19: "check_arity 18 19 = Inl TypeError"
  by (simp add: check_arity_def)

lemma DenseNetFCN_never_returns:
  "\<exists>e. DenseNetFCN K input_shape nb_dense_block growth_rate nb_layers_per_block reduction
     dropout_rate weight_decay init_conv_filters include_top top' weights input_tensor classes
     activation upsampling_conv upsampling_type batchsize transition_dilation_rate
     transition_pooling transition_kernel_size = Inl e"
  unfolding DenseNetFCN_def Let_def check_arity_18_19
  by (rule bind_never_returns, rule bind_never_returns) (simp add: bind_Inl)

lemma create_fcn_dense_net_include_top_fails:
  "\<exists>e. create_fcn_dense_net K nb_classes img_input True nb_dense_block growth_rate
     reduction dropout_rate weight_decay nb_layers_per_block nb_upsampling_conv upsampling_type
     batchsize init_conv_filters transition_dilation_rate transition_pooling
     transition_kernel_size activation input_shape = Inl e"
  unfolding create_fcn_dense_net_def Let_def
  apply (cases input_shape)
   apply simp
  apply (simp only: option.case split: prod.splits)
  apply (intro allI impI bind_never_returns)
  apply (simp only: split: prod.splits)
  apply (intro allI impI bind_never_returns)
  apply (simp only: split: prod.splits option.splits)
  apply (intro allI impI conjI bind_never_returns)
   apply (simp_all split: prod.splits)
  done





lemma dense_net_layers_LInt_ok:
  "\<exists>nbl fin. dense_net_layers (Some d) nb (LInt n) b = Inr (nbl, fin) \<and> length nbl = nat nb"
  by (simp add: dense_net_layers_def Let_def bind_Inr)

lemma create_dense_net_classification_ok:
  assumes d: "3 dvd (d - 4)"
    and red: "reduction = 0 \<or> (0 < reduction \<and> reduction \<le> 1)"
    and pool: "pool \<noteq> Some ''max''"
  shows "\<exists>x. create_dense_net K nc img True (Some ''classification'') (Some d) nb g nf (LInt n) b
           reduction dr wd dil pool ks s act = Inr x"
proof -
  from dense_net_layers_LInt_ok obtain nbl fin where
    layers: "dense_net_layers (Some d) nb (LInt n) b = Inr (nbl, fin)" and len: "length nbl = nat nb"
    by blast
  have "\<forall>i\<in>set [0..<nat (nb - 1)]. i < length nbl" using len by auto
  from dense_net_blocks_ok [OF pool this]
  obtain x1 nf1 where
    blocks: "dense_net_blocks K nbl g b dr wd (1 - reduction) dil pool ks [0..<nat (nb - 1)]
       (Apply (Conv2D (if nf \<le> 0 then 2 * g else nf) (3, 3) wd None None
                 (Some ''initial_conv2D'')) [img], if nf \<le> 0 then 2 * g else nf) = Inr (x1, nf1)"
    by (metis surj_pair)
  obtain x2 nf2 cl where
    db: "dense_block K x1 fin nf1 g b dr wd True False = (x2, nf2, cl)"
    by (cases "dense_block K x1 fin nf1 g b dr wd True False") auto
  have asserts: "assert ((d - 4) mod 3 = 0) m1 = Inr ()"
    "(if reduction \<noteq> 0 then assert (reduction \<le> 1 \<and> reduction > 0) m2 else Inr ()) = Inr ()"
    for m1 m2
    using d red by (auto simp: assert_def dvd_eq_mod_eq_0)
  show ?thesis
    unfolding create_dense_net_def Let_def
    by (simp only: option.case asserts bind_Inr layers prod.case blocks db simp_thms if_True)
       blast
qed

lemma DenseNet_effects:
  assumes "DenseNet K input_shape depth nb_dense_block growth_rate nb_filter nb_layers_per_block
     bottleneck reduction dropout_rate weight_decay include_top top' weights input_tensor
     classes transition_dilation_rate transition_pooling transition_kernel_size activation
     = Inr (m, effs)"
  shows "effs = load_weights K depth nb_dense_block growth_rate nb_filter bottleneck reduction
     dropout_rate weight_decay include_top weights"
  using assms unfolding DenseNet_def Let_def
  by (auto split: if_splits dest!: bind_returns)

lemma DenseNet_default_returns:
  "\<exists>m effs. DenseNet keras_tf None (Some 40) 3 12 16 (LInt (- 1)) False 0 (Some 0) (1 / 10000)
      True (Some ''classification'') (Some ''cifar10'') None 10 (DilInt 1) (Some ''avg'') (1, 1)
      ''softmax'' = Inr (m, effs)"
proof -
  have "(3::int) dvd 40 - 4" by simp
  from create_dense_net_classification_ok [OF this, of 0 "Some ''avg''" keras_tf 10
      "Input (Some 32, Some 32, Some 3)" 3 12 16 "- 1" False "Some 0" "1 / 10000" "DilInt 1"
      "(1, 1)" "Some (Some 32, Some 32, Some 3)" "''softmax''"]
  obtain x where x: "create_dense_net keras_tf 10 (Input (Some 32, Some 32, Some 3)) True
      (Some ''classification'') (Some 40) 3 12 16 (LInt (- 1)) False 0 (Some 0) (1 / 10000)
      (DilInt 1) (Some ''avg'') (1, 1) (Some (Some 32, Some 32, Some 3)) ''softmax'' = Inr x"
    by auto
  have shape: "obtain_input_shape keras_tf None 32 8 (image_data_format keras_tf) True =
      Inr (Some 32, Some 32, Some 3)"
    by (simp add: keras_tf_simps obtain_input_shape_keras2_def)
  show ?thesis
    unfolding DenseNet_def Let_def
    by (simp add: shape bind_Inr make_img_input_def x)
qed

section \<open>The building blocks: properties\<close>

text \<open>
  Claim C10. For every call to \<open>__transition_block\<close> with \<open>pooling == "max"\<close> the
  selected branch evaluates the unbound name \<open>MaxPooling2D\<close> and the call fails with
  \<open>NameError\<close>; every other value of \<open>pooling\<close> (\<open>"avg"\<close>, \<open>None\<close>, any other
  string) produces a tensor.
\<close>

theorem transition_block_max_pooling_unbound:
  "(pooling = Some ''max'' \<longrightarrow>
      transition_block K ip nb_filter compression dropout_rate weight_decay dilation_rate
        pooling kernel_size = Inl (NameError ''MaxPooling2D'')) \<and>
   (pooling \<noteq> Some ''max'' \<longrightarrow>
      (\<exists>x. transition_block K ip nb_filter compression dropout_rate weight_decay dilation_rate
        pooling kernel_size = Inr x))"
  by (simp add: transition_block_def Let_def)

theorem transition_block_max_pooling_unbound_witness:
  "transition_block keras_tf (Input (Some 32, Some 32, Some 3)) 16 1 None (1 / 10000) (DilInt 1)
     (Some ''max'') (1, 1) = Inl (NameError ''MaxPooling2D'') \<and>
   (\<exists>x. transition_block keras_tf (Input (Some 32, Some 32, Some 3)) 16 1 None (1 / 10000)
      (DilInt 1) (Some ''avg'') (1, 1) = Inr x) \<and>
   (\<exists>x. transition_block keras_tf (Input (Some 32, Some 32, Some 3)) 16 1 None (1 / 10000)
      (DilInt 1) None (1, 1) = Inr x)"
  using transition_block_max_pooling_unbound [of "Some ''max''" keras_tf
          "Input (Some 32, Some 32, Some 3)" 16 1 None "1 / 10000" "DilInt 1" "(1, 1)"]
        transition_block_max_pooling_unbound [of "Some ''avg''" keras_tf
          "Input (Some 32, Some 32, Some 3)" 16 1 None "1 / 10000" "DilInt 1" "(1, 1)"]
        transition_block_max_pooling_unbound [of None keras_tf
          "Input (Some 32, Some 32, Some 3)" 16 1 None "1 / 10000" "DilInt 1" "(1, 1)"]
  by simp

text \<open>
  Claim C6. In a dense block built by \<open>__dense_block\<close> with \<open>nb_layers \<ge> 1\<close>, the
  conv block number \<open>i\<close> (from 0) is fed the concatenation of the block's input with the
  outputs of the \<open>i\<close> conv blocks before it (for \<open>i = 0\<close> that is the input itself), and
  the tensor returned is the concatenation of the block's input with the outputs of all
  \<open>nb_layers\<close> conv blocks; with \<open>return_concat_list\<close> the list returned is the input
  followed by these outputs.
\<close>

theorem dense_block_concatenation:
  assumes "1 \<le> nb_layers"
  shows "\<exists>cs. length cs = nat nb_layers \<and>
     (\<forall>i<nat nb_layers. cs ! i =
        conv_block K (block_concat K x (take i cs)) growth_rate bottleneck dropout_rate
          weight_decay) \<and>
     fst (dense_block K x nb_layers nb_filter growth_rate bottleneck dropout_rate weight_decay
            grow_nb_filters return_concat_list) =
       Apply (Merge_concat (concat_axis_of K)) (x # cs) \<and>
     snd (snd (dense_block K x nb_layers nb_filter growth_rate bottleneck dropout_rate
                 weight_decay grow_nb_filters return_concat_list)) =
       (if return_concat_list then Some (x # cs) else None)"
proof -
  from dense_block_spec [of nb_layers K x growth_rate bottleneck dropout_rate weight_decay
      nb_filter grow_nb_filters return_concat_list]
  obtain cs where cs: "length cs = nat nb_layers"
    "\<forall>i<nat nb_layers. cs ! i =
        conv_block K (block_concat K x (take i cs)) growth_rate bottleneck dropout_rate
          weight_decay"
    "dense_block K x nb_layers nb_filter growth_rate bottleneck dropout_rate weight_decay
       grow_nb_filters return_concat_list =
       (block_concat K x cs,
        if grow_nb_filters then nb_filter + max 0 nb_layers * growth_rate else nb_filter,
        if return_concat_list then Some (x # cs) else None)"
    by blast
  from assms cs(1) have "cs \<noteq> []" by auto
  then have "block_concat K x cs = Apply (Merge_concat (concat_axis_of K)) (x # cs)"
    by (simp add: block_concat_def)
  with cs show ?thesis by (intro exI [of _ cs]) simp
qed

theorem dense_block_concatenation_witness:
  "fst (dense_block keras_tf (Input (Some 32, Some 32, Some 3)) 2 16 12 False None (1 / 10000)
          True True) =
     Apply (Merge_concat (- 1))
       [Input (Some 32, Some 32, Some 3),
        conv_block keras_tf (Input (Some 32, Some 32, Some 3)) 12 False None (1 / 10000),
        conv_block keras_tf
          (Apply (Merge_concat (- 1))
             [Input (Some 32, Some 32, Some 3),
              conv_block keras_tf (Input (Some 32, Some 32, Some 3)) 12 False None (1 / 10000)])
          12 False None (1 / 10000)]"
proof -
  have h: "(1::int) \<le> 2" by simp
  from dense_block_concatenation [OF h, of keras_tf "Input (Some 32, Some 32, Some 3)" 12 False
      None "1 / 10000" 16 True True]
  obtain cs where len: "length cs = 2" and
    nth: "\<forall>i<2. cs ! i =
        conv_block keras_tf (block_concat keras_tf (Input (Some 32, Some 32, Some 3)) (take i cs))
          12 False None (1 / 10000)" and
    res: "fst (dense_block keras_tf (Input (Some 32, Some 32, Some 3)) 2 16 12 False None
                 (1 / 10000) True True) =
       Apply (Merge_concat (concat_axis_of keras_tf)) (Input (Some 32, Some 32, Some 3) # cs)"
    by auto
  from len obtain c0 c1 where cs: "cs = [c0, c1]"
    by (metis (no_types, opaque_lifting) One_nat_def Suc_1 length_0_conv length_Suc_conv)
  from nth [rule_format, of 0] have c0: "c0 =
      conv_block keras_tf (Input (Some 32, Some 32, Some 3)) 12 False None (1 / 10000)"
    by (simp add: cs block_concat_def)
  from nth [rule_format, of 1] have c1: "c1 = conv_block keras_tf
          (Apply (Merge_concat (- 1)) [Input (Some 32, Some 32, Some 3), c0])
          12 False None (1 / 10000)"
    by (simp add: cs block_concat_def concat_axis_of_def keras_tf_def)
  show ?thesis using res
    by (simp add: cs c1 c0 concat_axis_of_def keras_tf_def)
qed

text \<open>
  Claim C7, amended. With \<open>grow_nb_filters\<close> true the filter count returned by
  \<open>__dense_block\<close> is \<open>nb_filter + max(nb_layers, 0) * growth_rate\<close>: every conv
  block that runs adds \<open>growth_rate\<close>, and \<open>range(nb_layers)\<close> runs \<open>nb_layers\<close>
  of them when \<open>nb_layers \<ge> 0\<close> and none when it is negative. With
  \<open>grow_nb_filters\<close> false the count returned is the input \<open>nb_filter\<close>.
\<close>

theorem dense_block_filter_count:
  "fst (snd (dense_block K x nb_layers nb_filter growth_rate bottleneck dropout_rate weight_decay
               grow_nb_filters return_concat_list)) =
     (if grow_nb_filters then nb_filter + max 0 nb_layers * growth_rate else nb_filter)"
  using dense_block_spec [of nb_layers K x growth_rate bottleneck dropout_rate weight_decay
      nb_filter grow_nb_filters return_concat_list]
  by auto

theorem dense_block_filter_count_witness:
  "fst (snd (dense_block keras_tf (Input (Some 32, Some 32, Some 3)) 12 16 12 False None
               (1 / 10000) True False)) = 160 \<and>
   fst (snd (dense_block keras_tf (Input (Some 32, Some 32, Some 3)) (- 1) 16 12 False None
               (1 / 10000) True False)) = 16 \<and>
   fst (snd (dense_block keras_tf (Input (Some 32, Some 32, Some 3)) 12 16 12 False None
               (1 / 10000) False False)) = 16"
  using dense_block_filter_count [of keras_tf "Input (Some 32, Some 32, Some 3)" 12 16 12 False
          None "1 / 10000" True False]
        dense_block_filter_count [of keras_tf "Input (Some 32, Some 32, Some 3)" "- 1" 16 12 False
          None "1 / 10000" True False]
        dense_block_filter_count [of keras_tf "Input (Some 32, Some 32, Some 3)" 12 16 12 False
          None "1 / 10000" False False]
  by simp

text \<open>
  The claim as stated, \<open>nb_filter + nb_layers * growth_rate\<close> for every call, fails for
  a negative \<open>nb_layers\<close>: the loop does not run and 16 is returned, not \<open>16 - 12\<close>.
\<close>

theorem dense_block_filter_count_counterexample:
  "fst (snd (dense_block keras_tf (Input (Some 32, Some 32, Some 3)) (- 1) 16 12 False None
               (1 / 10000) True False)) \<noteq> 16 + (- 1) * 12"
  by (simp add: dense_block_def)

section \<open>The classification network: properties\<close>

text \<open>
  Claim C5. For \<open>__create_dense_net\<close> with \<open>depth\<close> not \<open>None\<close> and
  \<open>nb_layers_per_block == -1\<close>, the derived number of layers is
  \<open>int((depth - 4) / 3)\<close> for each of the \<open>nb_dense_block\<close> blocks of the list and
  for the final block, and with \<open>bottleneck\<close> the entries of the list, not the final
  count, are halved by floor division. When \<open>depth - 4\<close> is divisible by 3, as the
  assertion on \<open>depth\<close> demands, the count is \<open>(depth - 4) div 3\<close>.
\<close>

theorem dense_net_layers_from_depth:
  "dense_net_layers (Some d) nb_dense_block (LInt (- 1)) bottleneck =
     Inr (replicate (nat nb_dense_block)
            (if bottleneck then py_int (of_int (d - 4) / 3) div 2
             else py_int (of_int (d - 4) / 3)),
          py_int (of_int (d - 4) / 3)) \<and>
   (3 dvd (d - 4) \<longrightarrow> py_int (of_int (d - 4) / 3) = (d - 4) div 3)"
proof
  show "dense_net_layers (Some d) nb_dense_block (LInt (- 1)) bottleneck =
     Inr (replicate (nat nb_dense_block)
            (if bottleneck then py_int (of_int (d - 4) / 3) div 2
             else py_int (of_int (d - 4) / 3)),
          py_int (of_int (d - 4) / 3))"
    by (simp add: dense_net_layers_def Let_def bind_Inr)
  show "3 dvd (d - 4) \<longrightarrow> py_int (of_int (d - 4) / 3) = (d - 4) div 3"
    using py_int_exact_div [of "d - 4"] by blast
qed

theorem dense_net_layers_from_depth_witness:
  "dense_net_layers (Some 40) 3 (LInt (- 1)) False = Inr ([12, 12, 12], 12) \<and>
   dense_net_layers (Some 100) 3 (LInt (- 1)) True = Inr ([16, 16, 16], 32)"
  using dense_net_layers_from_depth [of 40 3 False] dense_net_layers_from_depth [of 100 3 True]
  by (simp add: numeral_eq_Suc)

text \<open>
  Claim C4. \<open>__create_dense_net\<close> with \<open>depth\<close> not \<open>None\<close> goes on to build
  the graph only if \<open>depth - 4\<close> is divisible by 3: any other depth fails the first
  assertion, and so \<open>DenseNet\<close> with such a depth raises an error too. With \<open>depth\<close>
  \<open>None\<close> the call requires \<open>nb_layers_per_block\<close> to differ from \<open>-1\<close>, and fails
  the assertion otherwise.
\<close>

theorem create_dense_net_depth_check:
  "(depth = Some d \<and> \<not> 3 dvd (d - 4) \<longrightarrow>
      create_dense_net K nb_classes img_input include_top top' depth nb_dense_block growth_rate
        nb_filter nb_layers_per_block bottleneck reduction dropout_rate weight_decay
        transition_dilation_rate transition_pooling transition_kernel_size input_shape activation
        = Inl (AssertionError ''Depth must be nb_dense_block * N + 4'') \<and>
      (\<exists>e. DenseNet K input_shape0 depth nb_dense_block growth_rate nb_filter nb_layers_per_block
         bottleneck reduction dropout_rate weight_decay include_top top' weights input_tensor
         nb_classes transition_dilation_rate transition_pooling transition_kernel_size activation
         = Inl e)) \<and>
   (depth = None \<and> nb_layers_per_block = LInt (- 1) \<longrightarrow>
      create_dense_net K nb_classes img_input include_top top' depth nb_dense_block growth_rate
        nb_filter nb_layers_per_block bottleneck reduction dropout_rate weight_decay
        transition_dilation_rate transition_pooling transition_kernel_size input_shape activation
        = Inl (AssertionError
            ''Depth cannot be None when nb_layers_per_block is -1. Specify either parameter.'') \<and>
      (\<exists>e. DenseNet K input_shape0 depth nb_dense_block growth_rate nb_filter nb_layers_per_block
         bottleneck reduction dropout_rate weight_decay include_top top' weights input_tensor
         nb_classes transition_dilation_rate transition_pooling transition_kernel_size activation
         = Inl e))"
proof -
  have fail: "create_dense_net K c i t tp depth nb_dense_block growth_rate
        nb_filter nb_layers_per_block bottleneck reduction dropout_rate weight_decay
        transition_dilation_rate transition_pooling transition_kernel_size s activation
        = Inl (AssertionError (if depth = None
             then ''Depth cannot be None when nb_layers_per_block is -1. Specify either parameter.''
             else ''Depth must be nb_dense_block * N + 4''))"
    if "(depth = Some d \<and> \<not> 3 dvd (d - 4)) \<or> (depth = None \<and> nb_layers_per_block = LInt (- 1))"
    for c i t tp s
    using that
    by (auto simp: create_dense_net_def Let_def bind_Inl assert_def dvd_eq_mod_eq_0)
  have dn: "\<exists>e. DenseNet K input_shape0 depth nb_dense_block growth_rate nb_filter
         nb_layers_per_block bottleneck reduction dropout_rate weight_decay include_top top'
         weights input_tensor nb_classes transition_dilation_rate transition_pooling
         transition_kernel_size activation = Inl e"
    if "(depth = Some d \<and> \<not> 3 dvd (d - 4)) \<or> (depth = None \<and> nb_layers_per_block = LInt (- 1))"
    unfolding DenseNet_def
    by (auto simp only: fail [OF that] bind_Inl Let_def intro!: bind_never_returns split: if_splits)
  show ?thesis using fail dn by auto
qed

theorem create_dense_net_depth_check_witness:
  "create_dense_net keras_tf 10 (Input (Some 32, Some 32, Some 3)) True (Some ''classification'')
     (Some 41) 3 12 16 (LInt (- 1)) False 0 (Some 0) (1 / 10000) (DilInt 1) (Some ''avg'') (1, 1)
     (Some (Some 32, Some 32, Some 3)) ''softmax''
     = Inl (AssertionError ''Depth must be nb_dense_block * N + 4'') \<and>
   (\<exists>e. DenseNet keras_tf None (Some 41) 3 12 16 (LInt (- 1)) False 0 (Some 0) (1 / 10000) True
      (Some ''classification'') (Some ''cifar10'') None 10 (DilInt 1) (Some ''avg'') (1, 1)
      ''softmax'' = Inl e) \<and>
   create_dense_net keras_tf 10 (Input (Some 32, Some 32, Some 3)) True (Some ''classification'')
     None 3 12 16 (LInt (- 1)) False 0 (Some 0) (1 / 10000) (DilInt 1) (Some ''avg'') (1, 1)
     (Some (Some 32, Some 32, Some 3)) ''softmax''
     = Inl (AssertionError
         ''Depth cannot be None when nb_layers_per_block is -1. Specify either parameter.'') \<and>
   (\<exists>e. DenseNet keras_tf None None 3 12 16 (LInt (- 1)) False 0 (Some 0) (1 / 10000) True
      (Some ''classification'') (Some ''cifar10'') None 10 (DilInt 1) (Some ''avg'') (1, 1)
      ''softmax'' = Inl e)"
  using create_dense_net_depth_check [of "Some 41" 41 keras_tf 10
          "Input (Some 32, Some 32, Some 3)" True "Some ''classification''" 3 12 16 "LInt (- 1)"
          False 0 "Some 0" "1 / 10000" "DilInt 1" "Some ''avg''" "(1, 1)"
          "Some (Some 32, Some 32, Some 3)" "''softmax''" None "Some ''cifar10''" None]
        create_dense_net_depth_check [of None 0 keras_tf 10
          "Input (Some 32, Some 32, Some 3)" True "Some ''classification''" 3 12 16 "LInt (- 1)"
          False 0 "Some 0" "1 / 10000" "DilInt 1" "Some ''avg''" "(1, 1)"
          "Some (Some 32, Some 32, Some 3)" "''softmax''" None "Some ''cifar10''" None]
  by simp



text \<open>
  Claim C3, amended. For every call to \<open>DenseNet\<close> that returns a model: if
  \<open>weights == 'cifar10'\<close> and the hyperparameters are those of the pretrained
  configuration (\<open>depth == 40\<close>, \<open>nb_dense_block == 3\<close>, \<open>growth_rate == 12\<close>,
  \<open>nb_filter == 16\<close>, \<open>bottleneck\<close> false, \<open>reduction == 0.0\<close>,
  \<open>dropout_rate == 0.0\<close>, \<open>weight_decay == 1E-4\<close>), one weights file is fetched from
  one of the four URLs and that file is loaded into the model, followed at most by a
  warning and a kernel conversion; for every other argument combination nothing is
  fetched or loaded. A call that raises returns no model and fetches nothing.
\<close>

theorem DenseNet_weight_loading:
  assumes "DenseNet K input_shape depth nb_dense_block growth_rate nb_filter nb_layers_per_block
     bottleneck reduction dropout_rate weight_decay include_top top' weights input_tensor
     classes transition_dilation_rate transition_pooling transition_kernel_size activation
     = Inr (m, effs)"
  shows "(weights = Some ''cifar10'' \<and> depth = Some 40 \<and> nb_dense_block = 3 \<and> growth_rate = 12 \<and>
          nb_filter = 16 \<and> \<not> bottleneck \<and> reduction = 0 \<and> dropout_rate = Some 0 \<and>
          weight_decay = 1 / 10000 \<longrightarrow>
            (\<exists>f u rest. effs = GetFile f u # LoadWeights f # rest \<and>
               u \<in> {TH_WEIGHTS_PATH, TH_WEIGHTS_PATH_NO_TOP, TF_WEIGHTS_PATH,
                     TF_WEIGHTS_PATH_NO_TOP} \<and>
               set rest \<subseteq> {Warn, ConvertAllKernels})) \<and>
         (\<not> (weights = Some ''cifar10'' \<and> depth = Some 40 \<and> nb_dense_block = 3 \<and>
             growth_rate = 12 \<and> nb_filter = 16 \<and> \<not> bottleneck \<and> reduction = 0 \<and>
             dropout_rate = Some 0 \<and> weight_decay = 1 / 10000) \<longrightarrow> effs = [])"
  unfolding DenseNet_effects [OF assms] load_weights_def Let_def
  by auto

theorem DenseNet_weight_loading_witness:
  "\<exists>m f u rest. DenseNet keras_tf None (Some 40) 3 12 16 (LInt (- 1)) False 0 (Some 0) (1 / 10000)
      True (Some ''classification'') (Some ''cifar10'') None 10 (DilInt 1) (Some ''avg'') (1, 1)
      ''softmax'' = Inr (m, GetFile f u # LoadWeights f # rest)"
proof -
  from DenseNet_default_returns obtain m effs where
    run: "DenseNet keras_tf None (Some 40) 3 12 16 (LInt (- 1)) False 0 (Some 0) (1 / 10000)
      True (Some ''classification'') (Some ''cifar10'') None 10 (DilInt 1) (Some ''avg'') (1, 1)
      ''softmax'' = Inr (m, effs)"
    by blast
  from DenseNet_weight_loading [OF run] obtain f u rest where
    "effs = GetFile f u # LoadWeights f # rest"
    by auto
  with run show ?thesis by blast
qed

text \<open>
  The claim as stated, for every call, fails where the argument checks reject the call:
  with the pretrained configuration and \<open>weights='cifar10'\<close> but \<open>classes=5\<close> the
  call raises \<open>ValueError\<close>, and no file is fetched or loaded.
\<close>

theorem DenseNet_weight_loading_counterexample:
  \<open>DenseNet keras_tf None (Some 40) 3 12 16 (LInt (- 1)) False 0 (Some 0) (1 / 10000)
      True (Some ''classification'') (Some ''cifar10'') None 5 (DilInt 1) (Some ''avg'') (1, 1)
      ''softmax'' =
    Inl (ValueError (''If using `weights` as CIFAR 10 with `include_top`'' @
                     '' as true, `classes` should be 10''))\<close>
  by (simp add: DenseNet_def)

section \<open>The fully convolutional network: properties\<close>

text \<open>
  Claim C1, amended. For every call to \<open>__create_fcn_dense_net\<close> with
  \<open>include_top\<close> true: the call never returns a tensor, and when its input shape has
  known rows and columns, its two assertions hold and a list or tuple
  \<open>nb_layers_per_block\<close> is not empty and has \<open>nb_dense_block + 1\<close> entries, the
  evaluation reaches \<open>include_top and top is 'classification'\<close>, where \<open>top\<close> is
  bound nowhere, and fails with \<open>NameError\<close>. No call to \<open>DenseNetFCN\<close> with
  \<open>include_top\<close> true returns a model.
\<close>

theorem create_fcn_dense_net_unbound_top:
  assumes "include_top"
  shows "(input_shape = Some (a, b, c) \<and>
          (if concat_axis_of K = 1 then (b, c) else (a, b)) = (Some rows, Some cols) \<and>
          (reduction = 0 \<or> (0 < reduction \<and> reduction \<le> 1)) \<and>
          12 \<le> nb_upsampling_conv \<and> nb_upsampling_conv mod 4 = 0 \<and>
          (case nb_layers_per_block of
             LInt n \<Rightarrow> True
           | LList l \<Rightarrow> l \<noteq> [] \<and> int (length l) = nb_dense_block + 1
           | LTuple l \<Rightarrow> l \<noteq> [] \<and> int (length l) = nb_dense_block + 1) \<longrightarrow>
          create_fcn_dense_net K nb_classes img_input include_top nb_dense_block growth_rate
            reduction dropout_rate weight_decay nb_layers_per_block nb_upsampling_conv
            upsampling_type batchsize init_conv_filters transition_dilation_rate
            transition_pooling transition_kernel_size activation input_shape
            = Inl (NameError ''top'')) \<and>
         (\<exists>e. create_fcn_dense_net K nb_classes img_input include_top nb_dense_block growth_rate
            reduction dropout_rate weight_decay nb_layers_per_block nb_upsampling_conv
            upsampling_type batchsize init_conv_filters transition_dilation_rate
            transition_pooling transition_kernel_size activation input_shape = Inl e) \<and>
         (\<exists>e. DenseNetFCN K input_shape nb_dense_block growth_rate nb_layers_per_block reduction
            dropout_rate weight_decay init_conv_filters include_top top' weights input_tensor
            nb_classes activation nb_upsampling_conv upsampling_type batchsize
            transition_dilation_rate transition_pooling transition_kernel_size = Inl e)"
proof (intro conjI impI)
  assume ok: "input_shape = Some (a, b, c) \<and>
          (if concat_axis_of K = 1 then (b, c) else (a, b)) = (Some rows, Some cols) \<and>
          (reduction = 0 \<or> (0 < reduction \<and> reduction \<le> 1)) \<and>
          12 \<le> nb_upsampling_conv \<and> nb_upsampling_conv mod 4 = 0 \<and>
          (case nb_layers_per_block of
             LInt n \<Rightarrow> True
           | LList l \<Rightarrow> l \<noteq> [] \<and> int (length l) = nb_dense_block + 1
           | LTuple l \<Rightarrow> l \<noteq> [] \<and> int (length l) = nb_dense_block + 1)"
  then have h: "input_shape = Some (a, b, c)"
    "(if concat_axis_of K = 1 then (b, c) else (a, b)) = (Some rows, Some cols)"
    "reduction = 0 \<or> (0 < reduction \<and> reduction \<le> 1)"
    "12 \<le> nb_upsampling_conv \<and> nb_upsampling_conv mod 4 = 0"
    "case nb_layers_per_block of
             LInt n \<Rightarrow> True
           | LList l \<Rightarrow> l \<noteq> [] \<and> int (length l) = nb_dense_block + 1
           | LTuple l \<Rightarrow> l \<noteq> [] \<and> int (length l) = nb_dense_block + 1"
    by blast+
  from create_fcn_dense_net_result [OF h, of nb_classes img_input include_top growth_rate
      dropout_rate weight_decay upsampling_type batchsize init_conv_filters
      transition_dilation_rate transition_pooling transition_kernel_size activation] assms
  show "create_fcn_dense_net K nb_classes img_input include_top nb_dense_block growth_rate
            reduction dropout_rate weight_decay nb_layers_per_block nb_upsampling_conv
            upsampling_type batchsize init_conv_filters transition_dilation_rate
            transition_pooling transition_kernel_size activation input_shape
            = Inl (NameError ''top'')"
    by simp
next
  show "\<exists>e. create_fcn_dense_net K nb_classes img_input include_top nb_dense_block growth_rate
            reduction dropout_rate weight_decay nb_layers_per_block nb_upsampling_conv
            upsampling_type batchsize init_conv_filters transition_dilation_rate
            transition_pooling transition_kernel_size activation input_shape = Inl e"
    using assms create_fcn_dense_net_include_top_fails by simp
next
  show "\<exists>e. DenseNetFCN K input_shape nb_dense_block growth_rate nb_layers_per_block reduction
            dropout_rate weight_decay init_conv_filters include_top top' weights input_tensor
            nb_classes activation nb_upsampling_conv upsampling_type batchsize
            transition_dilation_rate transition_pooling transition_kernel_size = Inl e"
    by (rule DenseNetFCN_never_returns)
qed

theorem create_fcn_dense_net_unbound_top_witness:
  "create_fcn_dense_net keras_tf 1 (Input (Some 32, Some 32, Some 3)) True 5 16 0 (Some 0)
     (1 / 10000) (LInt 4) 128 ''upsampling'' None 48 (DilInt 1) (Some ''avg'') (1, 1) ''softmax''
     (Some (Some 32, Some 32, Some 3)) = Inl (NameError ''top'') \<and>
   (\<exists>e. DenseNetFCN keras_tf (Some (Some 32, Some 32, Some 3)) 5 16 (LInt 4) 0 (Some 0)
      (1 / 10000) 48 True (Some ''segmentation'') None None 1 ''softmax'' 128 ''upsampling'' None
      (DilInt 1) (Some ''avg'') (1, 1) = Inl e)"
  using create_fcn_dense_net_unbound_top [where include_top = True
      and input_shape = "Some (Some 32, Some 32, Some 3)" and a = "Some 32" and b = "Some 32"
      and c = "Some 3" and K = keras_tf and rows = 32 and cols = 32 and reduction = 0
      and nb_upsampling_conv = 128 and nb_layers_per_block = "LInt 4" and nb_dense_block = 5
      and nb_classes = 1 and img_input = "Input (Some 32, Some 32, Some 3)"
      and growth_rate = 16 and dropout_rate = "Some 0" and weight_decay = "1 / 10000"
      and upsampling_type = "''upsampling''" and batchsize = None and init_conv_filters = 48
      and transition_dilation_rate = "DilInt 1" and transition_pooling = "Some ''avg''"
      and transition_kernel_size = "(1, 1)" and activation = "''softmax''"
      and top' = "Some ''segmentation''" and weights = None and input_tensor = None]
  by (simp add: keras_tf_simps)

text \<open>
  The claim as stated says that every call to \<open>DenseNetFCN\<close> with \<open>include_top\<close> true
  reaches that expression and fails with the unbound name. With the default arguments and
  the input shape \<open>(32, 32, 3)\<close> the call fails instead with \<open>TypeError\<close>, at the call
  of \<open>__create_fcn_dense_net\<close> with one positional argument too many.
\<close>

theorem DenseNetFCN_include_top_counterexample:
  "DenseNetFCN keras_tf (Some (Some 32, Some 32, Some 3)) 5 16 (LInt 4) 0 (Some 0)
      (1 / 10000) 48 True (Some ''segmentation'') None None 1 ''softmax'' 128 ''upsampling'' None
      (DilInt 1) (Some ''avg'') (1, 1) = Inl TypeError"
  by (simp add: DenseNetFCN_def DenseNetFCN_checks_def lower_def lower_char_def keras_tf_simps
        obtain_input_shape_keras2_def bind_Inr bind_Inl check_arity_def)

text \<open>
  Claim C2 says that \<open>DenseNetFCN\<close> rejects a \<open>nb_layers_per_block\<close> that is not a
  list and is less than 1 with an error raised before any layer is built. The check of
  line 309 compares \<open>nb_dense_block\<close>, not \<open>nb_layers_per_block\<close>, with 1, although its
  message speaks of the layers per block and prints \<open>nb_layers_per_block\<close>. For
  \<open>nb_layers_per_block = 0\<close> and the default \<open>nb_dense_block = 5\<close>: all checks pass;
  \<open>DenseNetFCN\<close> then builds the input layer and fails with the \<open>TypeError\<close> of the
  call with one argument too many; and \<open>__create_fcn_dense_net\<close>, called with these
  hyperparameters, builds a graph.
\<close>

theorem DenseNetFCN_accepts_zero_layers_per_block:
  "DenseNetFCN_checks (Some (Some 32, Some 32, Some 3)) 5 (LInt 0) None 1 ''softmax''
     ''upsampling'' None = Inr ''upsampling'' \<and>
   DenseNetFCN keras_tf (Some (Some 32, Some 32, Some 3)) 5 16 (LInt 0) 0 (Some 0)
      (1 / 10000) 48 True (Some ''segmentation'') None None 1 ''softmax'' 128 ''upsampling'' None
      (DilInt 1) (Some ''avg'') (1, 1) = Inl TypeError \<and>
   (\<exists>x. create_fcn_dense_net keras_tf 1 (Input (Some 32, Some 32, Some 3)) False 5 16 0 (Some 0)
     (1 / 10000) (LInt 0) 128 ''upsampling'' None 48 (DilInt 1) (Some ''avg'') (1, 1) ''softmax''
     (Some (Some 32, Some 32, Some 3)) = Inr x)"
proof (intro conjI)
  show checks: "DenseNetFCN_checks (Some (Some 32, Some 32, Some 3)) 5 (LInt 0) None 1 ''softmax''
     ''upsampling'' None = Inr ''upsampling''"
    by (simp add: DenseNetFCN_checks_def lower_def lower_char_def)
  show "DenseNetFCN keras_tf (Some (Some 32, Some 32, Some 3)) 5 16 (LInt 0) 0 (Some 0)
      (1 / 10000) 48 True (Some ''segmentation'') None None 1 ''softmax'' 128 ''upsampling'' None
      (DilInt 1) (Some ''avg'') (1, 1) = Inl TypeError"
    by (simp add: DenseNetFCN_def checks keras_tf_simps obtain_input_shape_keras2_def bind_Inr
          bind_Inl check_arity_def)
  have "concat_axis_of keras_tf \<noteq> 1" by (simp add: keras_tf_simps)
  then have dims: "(if concat_axis_of keras_tf = 1 then (Some 32, Some 3) else (Some 32, Some 32))
      = (Some (32::int), Some (32::int))"
    by simp
  from create_fcn_dense_net_result [where input_shape = "Some (Some 32, Some 32, Some 3)"
      and a = "Some 32" and b = "Some 32" and c = "Some 3" and K = keras_tf and rows = 32
      and cols = 32 and reduction = 0 and nb_upsampling_conv = 128
      and nb_layers_per_block = "LInt 0" and nb_dense_block = 5 and nb_classes = 1
      and img_input = "Input (Some 32, Some 32, Some 3)" and include_top = False
      and growth_rate = 16 and dropout_rate = "Some 0" and weight_decay = "1 / 10000"
      and upsampling_type = "''upsampling''" and batchsize = None and init_conv_filters = 48
      and transition_dilation_rate = "DilInt 1" and transition_pooling = "Some ''avg''"
      and transition_kernel_size = "(1, 1)" and activation = "''softmax''", OF refl dims]
  show "\<exists>x. create_fcn_dense_net keras_tf 1 (Input (Some 32, Some 32, Some 3)) False 5 16 0 (Some 0)
     (1 / 10000) (LInt 0) 128 ''upsampling'' None 48 (DilInt 1) (Some ''avg'') (1, 1) ''softmax''
     (Some (Some 32, Some 32, Some 3)) = Inr x"
    by simp
qed


end
